theory Spec2Isabelle
  imports Main "HOL-Library.List_Lexorder"
begin

section \<open>Strings, exceptions and JSON values\<close>

text \<open>
  A Python \<open>str\<close> is a sequence of Unicode code points, and \<open>len\<close>, slicing, \<open>ljust\<close>
  and \<open>rjust\<close> count code points. The model therefore takes a string to be the list of
  its code points; \<open>lit\<close> injects an ASCII literal.
\<close>

type_synonym str = "nat list"

definition lit :: "string \<Rightarrow> str" where
  "lit cs = map of_char cs"

text \<open>The exceptions that the viewer's own code and the library calls it makes can raise.\<close>

datatype error =
    FileNotFoundError
  | OSError
  | UnicodeDecodeError
  | JSONDecodeError
  | AttributeError
  | TypeError
  | ValueError

fun and_then :: "error + 'a \<Rightarrow> ('a \<Rightarrow> error + 'b) \<Rightarrow> error + 'b" where
  "and_then (Inl e) f = Inl e"
| "and_then (Inr x) f = f x"

text \<open>
  \<open>try: body except: handler\<close> with a bare \<open>except\<close>: every exception of the body is
  swallowed and the handler's value is produced instead.
\<close>

fun try_except :: "error + 'a \<Rightarrow> (error + 'a) \<Rightarrow> error + 'a" where
  "try_except (Inl e) handler = handler"
| "try_except (Inr x) handler = Inr x"

text \<open>
  What \<open>json.load\<close> produces. An object is the Python \<open>dict\<close> it is parsed into, kept as
  an association list in insertion order (lookup by \<open>map_of\<close>). Non-integral numbers are
  left out of the model: none of the viewer's decisions reads one.
\<close>

datatype json =
    JNull
  | JBool bool
  | JInt int
  | JStr str
  | JList "json list"
  | JDict "(str \<times> json) list"

text \<open>\<open>obj.get(key, default)\<close>: only a \<open>dict\<close> has the method.\<close>

fun get :: "json \<Rightarrow> str \<Rightarrow> json \<Rightarrow> error + json" where
  "get (JDict kvs) k d = Inr (case map_of kvs k of None \<Rightarrow> d | Some v \<Rightarrow> v)"
| "get _ k d = Inl AttributeError"

text \<open>Python truthiness, as \<open>if x:\<close> and \<open>x or y\<close> test it.\<close>

fun truthy :: "json \<Rightarrow> bool" where
  "truthy JNull = False"
| "truthy (JBool b) = b"
| "truthy (JInt n) = (n \<noteq> 0)"
| "truthy (JStr x) = (x \<noteq> [])"
| "truthy (JList xs) = (xs \<noteq> [])"
| "truthy (JDict kvs) = (kvs \<noteq> [])"

text \<open>
  \<open>for x in value\<close>: a list yields its elements, a string its one-character strings, a
  dict its keys; anything else is not iterable.
\<close>

fun py_iter :: "json \<Rightarrow> error + json list" where
  "py_iter (JList xs) = Inr xs"
| "py_iter (JStr x) = Inr (map (\<lambda>c. JStr [c]) x)"
| "py_iter (JDict kvs) = Inr (map (\<lambda>kv. JStr (fst kv)) kvs)"
| "py_iter _ = Inl TypeError"

text \<open>
  The characters \<open>str.strip()\<close> removes (those with \<open>str.isspace\<close>), and \<open>strip\<close> itself.
\<close>

definition isspace :: "nat \<Rightarrow> bool" where
  "isspace c \<longleftrightarrow>
     (9 \<le> c \<and> c \<le> 13) \<or> (28 \<le> c \<and> c \<le> 32) \<or> c = 133 \<or> c = 160 \<or> c = 5760 \<or>
     (8192 \<le> c \<and> c \<le> 8202) \<or> c = 8232 \<or> c = 8233 \<or> c = 8239 \<or> c = 8287 \<or> c = 12288"

definition lstrip :: "str \<Rightarrow> str" where
  "lstrip x = dropWhile isspace x"

definition rstrip :: "str \<Rightarrow> str" where
  "rstrip x = rev (dropWhile isspace (rev x))"

definition strip :: "str \<Rightarrow> str" where
  "strip x = rstrip (lstrip x)"


text \<open>Decimal digits of a count, as \<open>str(n)\<close> and an f-string field print it.\<close>

fun decimal :: "nat \<Rightarrow> str" where
  "decimal n = (if n < 10 then [48 + n] else decimal (n div 10) @ [48 + n mod 10])"

declare decimal.simps [simp del]

section \<open>The environment of a run\<close>

text \<open>
  \<open>TERMINAL_WIDTH\<close> and \<open>MAX_BUBBLE_WIDTH\<close> are module globals fixed when the program
  starts (the second is \<open>int(TERMINAL_WIDTH * 0.55)\<close>). The remaining fields are the
  library routines the viewer calls whose tables are not part of the repository: the
  per-code-point column table behind \<open>wcswidth\<close>, the chunking regular expression of
  \<open>textwrap\<close>, \<open>datetime.strptime\<close> for the one format the viewer uses, and \<open>repr\<close> of a
  container. Every theorem below holds for all of them unless it says otherwise.
\<close>

record datetime =
  year :: nat
  month :: nat
  day :: nat
  hour :: nat
  minute :: nat
  second :: nat

record env =
  terminal_width :: nat
  max_bubble_width :: nat
  wcwidth :: "nat \<Rightarrow> int"
  wordsep_split :: "str \<Rightarrow> str list"
  strptime :: "str \<Rightarrow> error + datetime"
  repr :: "json \<Rightarrow> str"

section \<open>Unicode safe padding\<close>

text \<open>
  \<open>wcswidth\<close> adds the column widths of the characters and gives up with the negative
  width of the first non-printable character it meets (\<open>-1\<close> for the C0 and C1 controls).
\<close>

fun wcswidth_from :: "(nat \<Rightarrow> int) \<Rightarrow> int \<Rightarrow> str \<Rightarrow> int" where
  "wcswidth_from tbl acc [] = acc"
| "wcswidth_from tbl acc (c # cs) =
     (if tbl c < 0 then tbl c else wcswidth_from tbl (acc + tbl c) cs)"

definition wcswidth :: "env \<Rightarrow> str \<Rightarrow> int" where
  "wcswidth E x = wcswidth_from (wcwidth E) 0 x"

definition pad_text :: "env \<Rightarrow> str \<Rightarrow> int \<Rightarrow> str" where
  "pad_text E text width =
     (let extra = width - wcswidth E text
      in text @ replicate (nat (max 0 extra)) 32)"

text \<open>
  The column table on ASCII: NUL takes no column, the other controls are non-printable,
  everything else takes one column. Code points from 128 on are given one column here,
  so this instance stands for the library's table on ASCII input only.
\<close>

definition wcwidth_ascii :: "nat \<Rightarrow> int" where
  "wcwidth_ascii c = (if c = 0 then 0 else if c < 32 \<or> c = 127 then - 1 else 1)"

section \<open>Word wrapping as \<open>textwrap.wrap\<close> does it\<close>


definition tw_whitespace :: "nat \<Rightarrow> bool" where
  "tw_whitespace c \<longleftrightarrow> c = 9 \<or> c = 10 \<or> c = 11 \<or> c = 12 \<or> c = 13 \<or> c = 32"





















text \<open>
  The chunks the splitting expression yields on a text without hyphens: the maximal runs
  of whitespace and of other characters.
\<close>

fun split_simple :: "str \<Rightarrow> str list" where
  "split_simple [] = []"
| "split_simple (c # cs) =
     (case split_simple cs of
        [] \<Rightarrow> [[c]]
      | g # gs \<Rightarrow> if tw_whitespace c = tw_whitespace (hd g) then (c # g) # gs else [c] # g # gs)"

section \<open>Bubble drawing\<close>








text \<open>
  A ten-column terminal (so \<open>MAX_BUBBLE_WIDTH = int(10 * 0.55) = 5\<close>) for evaluating the
  definitions on ASCII input. Its \<open>strptime\<close> knows one timestamp of the export format.
\<close>

definition narrow_terminal :: env where
  "narrow_terminal =
     \<lparr> terminal_width = 10,
       max_bubble_width = 5,
       wcwidth = wcwidth_ascii,
       wordsep_split = split_simple,
       strptime = (\<lambda>x. if x = lit ''Monday, 01 January 2024 at 10:30:00 UTC''
                        then Inr \<lparr> year = 2024, month = 1, day = 1,
                                  hour = 10, minute = 30, second = 0 \<rparr>
                        else Inl ValueError),
       repr = (\<lambda>j. []) \<rparr>"



section \<open>Timestamp cleaner\<close>





section \<open>Files and message loading\<close>

text \<open>
  What a path holds: nothing, something that cannot be opened, decoded or parsed (with
  the exception that \<open>open\<close> or \<open>json.load\<close> raises on it), or a JSON document.
\<close>

datatype file_state = Missing | Broken error | Json json

record filesystem =
  listdir :: "str \<Rightarrow> str list"
  file_at :: "str \<Rightarrow> file_state"

definition path_exists :: "filesystem \<Rightarrow> str \<Rightarrow> bool" where
  "path_exists fs path \<longleftrightarrow> file_at fs path \<noteq> Missing"

text \<open>\<open>os.path.join\<close> on a POSIX system, two components at a time.\<close>

definition path_join :: "str \<Rightarrow> str \<Rightarrow> str" where
  "path_join a b =
     (if b \<noteq> [] \<and> hd b = 47 then b
      else if a = [] \<or> last a = 47 then a @ b
      else a @ 47 # b)"

text \<open>\<open>with open(path, "r", encoding="utf-8") as f: data = json.load(f)\<close>\<close>

definition json_load :: "filesystem \<Rightarrow> str \<Rightarrow> error + json" where
  "json_load fs path =
     (case file_at fs path of
        Missing \<Rightarrow> Inl FileNotFoundError
      | Broken e \<Rightarrow> Inl e
      | Json data \<Rightarrow> Inr data)"

definition load_messages :: "filesystem \<Rightarrow> str \<Rightarrow> error + json" where
  "load_messages fs path =
     and_then (json_load fs path) (\<lambda>data.
       case data of
         JDict kvs \<Rightarrow>
           (case map_of kvs (lit ''messages'') of
              Some messages \<Rightarrow> Inr messages
            | None \<Rightarrow> Inr (JList []))
       | JList xs \<Rightarrow> Inr data
       | _ \<Rightarrow> Inr (JList []))"

section \<open>Pinned messages\<close>

text \<open>\<open>any(l.get("label_type") == "PINNED" for l in labels)\<close> stops at the first hit.\<close>

fun any_pinned :: "json list \<Rightarrow> error + bool" where
  "any_pinned [] = Inr False"
| "any_pinned (l # ls) =
     and_then (get l (lit ''label_type'') JNull) (\<lambda>label_type.
       if label_type = JStr (lit ''PINNED'') then Inr True else any_pinned ls)"

definition is_pinned :: "json \<Rightarrow> error + bool" where
  "is_pinned msg =
     and_then (get msg (lit ''message_labels'') (JList [])) (\<lambda>labels.
       and_then (py_iter labels) any_pinned)"

fun count_pinned_in :: "json list \<Rightarrow> error + nat" where
  "count_pinned_in [] = Inr 0"
| "count_pinned_in (m # ms) =
     and_then (is_pinned m) (\<lambda>p.
       and_then (count_pinned_in ms) (\<lambda>n. Inr (if p then n + 1 else n)))"

definition count_pinned :: "json \<Rightarrow> error + nat" where
  "count_pinned messages = and_then (py_iter messages) count_pinned_in"

fun extract_pinned_in :: "json list \<Rightarrow> error + json list" where
  "extract_pinned_in [] = Inr []"
| "extract_pinned_in (m # ms) =
     and_then (is_pinned m) (\<lambda>p.
       and_then (extract_pinned_in ms) (\<lambda>rest. Inr (if p then m # rest else rest)))"

definition extract_pinned :: "json \<Rightarrow> error + json" where
  "extract_pinned messages =
     and_then (py_iter messages) (\<lambda>ms.
       and_then (extract_pinned_in ms) (\<lambda>pinned. Inr (JList pinned)))"

section \<open>Detecting the viewer's email\<close>

text \<open>
  \<open>email_count\<close> is a \<open>dict\<close> from identities to counts, kept in insertion order. Only a
  hashable value can be a key; keys are compared as Python compares them, so \<open>True\<close> and
  \<open>1\<close> are one key.
\<close>

type_synonym email_count = "(json \<times> nat) list"

fun key_eq :: "json \<Rightarrow> json \<Rightarrow> bool" where
  "key_eq (JStr a) (JStr b) = (a = b)"
| "key_eq (JInt a) (JInt b) = (a = b)"
| "key_eq (JBool a) (JBool b) = (a = b)"
| "key_eq (JBool a) (JInt b) = (b = (if a then 1 else 0))"
| "key_eq (JInt a) (JBool b) = (a = (if b then 1 else 0))"
| "key_eq JNull JNull = True"
| "key_eq _ _ = False"

fun hashable :: "json \<Rightarrow> bool" where
  "hashable (JList xs) = False"
| "hashable (JDict kvs) = False"
| "hashable _ = True"

fun bump :: "email_count \<Rightarrow> json \<Rightarrow> email_count" where
  "bump [] email = [(email, 1)]"
| "bump ((k, n) # rest) email =
     (if key_eq k email then (k, n + 1) # rest else (k, n) # bump rest email)"

text \<open>\<open>messages[:200]\<close>: a list or a string can be sliced, nothing else.\<close>

fun first_200 :: "json \<Rightarrow> error + json list" where
  "first_200 (JList xs) = Inr (take 200 xs)"
| "first_200 (JStr x) = Inr (map (\<lambda>c. JStr [c]) (take 200 x))"
| "first_200 _ = Inl TypeError"

text \<open>
  The \<open>for\<close> loop over the messages of one folder. It runs inside the \<open>try\<close>; when a
  message raises, the counts entered so far stay in \<open>email_count\<close>.
\<close>

fun tally_messages :: "email_count \<Rightarrow> json list \<Rightarrow> error option \<times> email_count" where
  "tally_messages ec [] = (None, ec)"
| "tally_messages ec (msg # rest) =
     (case get msg (lit ''creator'') (JDict []) of
        Inl e \<Rightarrow> (Some e, ec)
      | Inr creator \<Rightarrow>
          (case get creator (lit ''email'') JNull of
             Inl e \<Rightarrow> (Some e, ec)
           | Inr email \<Rightarrow>
               if truthy email then
                 (if hashable email then tally_messages (bump ec email) rest
                  else (Some TypeError, ec))
               else tally_messages ec rest))"

definition tally_folder :: "filesystem \<Rightarrow> str \<Rightarrow> email_count \<Rightarrow> email_count" where
  "tally_folder fs msg_file ec =
     (case json_load fs msg_file of
        Inl e \<Rightarrow> ec
      | Inr data \<Rightarrow>
          (case get data (lit ''messages'') (JList []) of
             Inl e \<Rightarrow> ec
           | Inr messages \<Rightarrow>
               (case first_200 messages of
                  Inl e \<Rightarrow> ec
                | Inr ms \<Rightarrow> snd (tally_messages ec ms))))"

fun tally_folders :: "filesystem \<Rightarrow> str \<Rightarrow> email_count \<Rightarrow> str list \<Rightarrow> email_count" where
  "tally_folders fs groups_path ec [] = ec"
| "tally_folders fs groups_path ec (folder # rest) =
     (let msg_file = path_join (path_join groups_path folder) (lit ''messages.json'')
      in if \<not> path_exists fs msg_file then tally_folders fs groups_path ec rest
         else tally_folders fs groups_path (tally_folder fs msg_file ec) rest)"

text \<open>\<open>max(email_count, key=email_count.get)\<close>: the first key with the largest count.\<close>

fun max_key :: "json \<times> nat \<Rightarrow> email_count \<Rightarrow> json" where
  "max_key (k, n) [] = k"
| "max_key (k, n) ((k', n') # rest) =
     (if n' > n then max_key (k', n') rest else max_key (k, n) rest)"

text \<open>The result is \<open>None\<close> (here \<open>JNull\<close>) when no identity was counted.\<close>

definition detect_my_email :: "filesystem \<Rightarrow> str \<Rightarrow> json" where
  "detect_my_email fs groups_path =
     (case tally_folders fs groups_path [] (listdir fs groups_path) of
        [] \<Rightarrow> JNull
      | first # rest \<Rightarrow> max_key first rest)"

section \<open>Names of conversations\<close>

text \<open>
  The viewer's identity \<open>my_email\<close> is a string (the detected address or the one typed
  in), so \<open>email == my_email\<close> holds exactly for the JSON string with the same characters.
\<close>

fun dm_scan :: "json list \<Rightarrow> str \<Rightarrow> error + json" where
  "dm_scan [] my_email = Inr (JStr (lit ''Deleted User''))"
| "dm_scan (msg # rest) my_email =
     and_then (get msg (lit ''creator'') (JDict [])) (\<lambda>creator.
     and_then (get creator (lit ''email'') JNull) (\<lambda>email.
     and_then (get creator (lit ''name'') (JStr (lit ''Unknown''))) (\<lambda>name.
       if email = JStr my_email then dm_scan rest my_email
       else if truthy name \<and> name \<noteq> JStr (lit ''Unknown'') then Inr name
       else dm_scan rest my_email)))"

definition get_dm_participant :: "json \<Rightarrow> str \<Rightarrow> error + json" where
  "get_dm_participant messages my_email =
     and_then (py_iter messages) (\<lambda>ms. dm_scan ms my_email)"

text \<open>\<open>get_space_title\<close> returns \<open>None\<close> when the file is absent or anything raises.\<close>

definition get_space_title :: "filesystem \<Rightarrow> str \<Rightarrow> error + json" where
  "get_space_title fs folder_path =
     (let info_file = path_join folder_path (lit ''group_info.json'')
      in if \<not> path_exists fs info_file then Inr JNull
         else try_except
                (and_then (json_load fs info_file) (\<lambda>data. get data (lit ''name'') JNull))
                (Inr JNull))"

section \<open>Formatting a chat\<close>









section \<open>The chat list and the selected folder\<close>

definition startswith :: "str \<Rightarrow> str \<Rightarrow> bool" where
  "startswith x p \<longleftrightarrow> take (length p) x = p"

text \<open>
  \<open>name += f" (P {pinned_count})"\<close> with the pin U+1F4CC for \<open>P\<close>. On a string it
  concatenates, on a list \<open>+=\<close> extends the list by the characters, on anything else it
  raises.
\<close>

definition pin_suffix :: "nat \<Rightarrow> str" where
  "pin_suffix pinned_count = [32, 40, 128204, 32] @ decimal pinned_count @ [41]"

fun add_pin_suffix :: "json \<Rightarrow> nat \<Rightarrow> error + json" where
  "add_pin_suffix (JStr x) n = Inr (JStr (x @ pin_suffix n))"
| "add_pin_suffix (JList xs) n = Inr (JList (xs @ map (\<lambda>c. JStr [c]) (pin_suffix n)))"
| "add_pin_suffix _ n = Inl TypeError"

text \<open>
  The field \<open>{name:<45}\<close>: left-justified in 45 characters. A string or an integer can be
  formatted so (a boolean as the integer it is), anything else raises.
\<close>

definition ljust45 :: "str \<Rightarrow> str" where
  "ljust45 x = x @ replicate (45 - length x) 32"

fun format_left45 :: "json \<Rightarrow> error + str" where
  "format_left45 (JStr x) = Inr (ljust45 x)"
| "format_left45 (JInt n) = Inr (ljust45 (if n < 0 then 45 # decimal (nat (- n)) else decimal (nat n)))"
| "format_left45 (JBool b) = Inr (ljust45 (if b then [49] else [48]))"
| "format_left45 _ = Inl TypeError"

definition entry_line :: "str \<Rightarrow> str \<Rightarrow> str \<Rightarrow> str" where
  "entry_line tag field folder = tag @ [32, 32] @ field @ [32, 124, 32] @ folder"

definition labelled_entry :: "str \<Rightarrow> json \<Rightarrow> nat \<Rightarrow> str \<Rightarrow> error + str" where
  "labelled_entry tag label pinned_count folder =
     and_then (if pinned_count > 0 then add_pin_suffix label pinned_count else Inr label)
       (\<lambda>label'. and_then (format_left45 label')
          (\<lambda>field. Inr (entry_line tag field folder)))"

text \<open>
  One pass of the loop that builds \<open>entries\<close> (step 5 of \<open>main\<close>): the entry a folder
  contributes, if any. The three modes are read off the chosen category.
\<close>

definition folder_entry :: "filesystem \<Rightarrow> str \<Rightarrow> str \<Rightarrow> str \<Rightarrow> str \<Rightarrow> error + str option" where
  "folder_entry fs groups_path my_email category folder =
     (let pinned_mode = startswith category (lit ''PINNED'');
          show_dm = startswith category (lit ''DM'');
          show_space = startswith category (lit ''SPACE'');
          folder_path = path_join groups_path folder;
          msg_file = path_join folder_path (lit ''messages.json'')
      in if \<not> path_exists fs msg_file then Inr None
         else
           and_then (load_messages fs msg_file) (\<lambda>messages.
           and_then (count_pinned messages) (\<lambda>pinned_count.
             if pinned_mode \<and> pinned_count = 0 then Inr None
             else if (show_dm \<or> pinned_mode) \<and> startswith folder (lit ''DM'') then
               and_then (get_dm_participant messages my_email) (\<lambda>name.
               and_then (labelled_entry (lit ''DM'') name pinned_count folder) (\<lambda>entry.
                 Inr (Some entry)))
             else if (show_space \<or> pinned_mode) \<and> startswith folder (lit ''Space'') then
               and_then (get_space_title fs folder_path) (\<lambda>t.
                 let title = (if truthy t then t else JStr folder)
                 in and_then (labelled_entry (lit ''SP'') title pinned_count folder) (\<lambda>entry.
                      Inr (Some entry)))
             else Inr None)))"

fun collect_entries :: "filesystem \<Rightarrow> str \<Rightarrow> str \<Rightarrow> str \<Rightarrow> str list \<Rightarrow> error + str list" where
  "collect_entries fs groups_path my_email category [] = Inr []"
| "collect_entries fs groups_path my_email category (folder # rest) =
     and_then (folder_entry fs groups_path my_email category folder) (\<lambda>entry.
       and_then (collect_entries fs groups_path my_email category rest) (\<lambda>entries.
         Inr (case entry of None \<Rightarrow> entries | Some e \<Rightarrow> e # entries)))"

definition build_entries :: "filesystem \<Rightarrow> str \<Rightarrow> str \<Rightarrow> str \<Rightarrow> error + str list" where
  "build_entries fs groups_path my_email category =
     collect_entries fs groups_path my_email category (sort (listdir fs groups_path))"

text \<open>\<open>selected.split("|")[-1].strip()\<close>\<close>

fun split_on :: "nat \<Rightarrow> str \<Rightarrow> str list" where
  "split_on sep [] = [[]]"
| "split_on sep (c # cs) =
     (if c = sep then [] # split_on sep cs
      else (case split_on sep cs of
              [] \<Rightarrow> [[c]]
            | piece # pieces \<Rightarrow> (c # piece) # pieces))"

definition selected_folder :: "str \<Rightarrow> str" where
  "selected_folder selected = strip (last (split_on 124 selected))"

section \<open>Small archives for evaluation\<close>

text \<open>
  A message from a sender, with the labels given, and archives under \<open>Groups\<close> holding one
  conversation \<open>DM_1\<close> whose messages file is, in turn, a bare list with one message of
  \<open>a@x.com\<close>, the same list inside an object, and a file that is not valid JSON.
\<close>

definition message :: "str \<Rightarrow> str \<Rightarrow> str \<Rightarrow> json list \<Rightarrow> json" where
  "message name email text labels =
     JDict [(lit ''creator'', JDict [(lit ''name'', JStr name), (lit ''email'', JStr email)]),
            (lit ''text'', JStr text),
            (lit ''message_labels'', JList labels)]"

definition pinned_label :: json where
  "pinned_label = JDict [(lit ''label_type'', JStr (lit ''PINNED''))]"

definition one_folder :: "str \<Rightarrow> file_state \<Rightarrow> filesystem" where
  "one_folder folder content =
     \<lparr> listdir = (\<lambda>path. if path = lit ''Groups'' then [folder] else []),
       file_at = (\<lambda>path. if path = lit ''Groups/'' @ folder @ lit ''/messages.json''
                           then content else Missing) \<rparr>"

definition bare_list_archive :: filesystem where
  "bare_list_archive =
     one_folder (lit ''DM_1'') (Json (JList [message (lit ''Ann'') (lit ''a@x.com'') (lit ''hi'') []]))"

definition object_archive :: filesystem where
  "object_archive =
     one_folder (lit ''DM_1'')
       (Json (JDict [(lit ''messages'',
                      JList [message (lit ''Ann'') (lit ''a@x.com'') (lit ''hi'') []])]))"

definition broken_archive :: filesystem where
  "broken_archive = one_folder (lit ''DM_1'') (Broken JSONDecodeError)"

section \<open>Properties of padding and wrapping\<close>








lemma replicate_numeral: "replicate (numeral k) x = x # replicate (pred_numeral k) x"
  by (simp add: numeral_eq_Suc)

lemmas text_eval = lit_def strip_def lstrip_def rstrip_def isspace_def replicate_numeral Let_def






text \<open>
  C5 at a string holding a control character. \<open>wcswidth\<close> answers \<open>-1\<close> for the one-character
  string BEL, so \<open>pad_text\<close> appends four spaces for width 3, the result still measures
  \<open>-1\<close>, which is below 3, and padding it again appends four more spaces.
\<close>

theorem pad_text_control_character:
  "wcswidth narrow_terminal [7] = - 1 \<and>
   pad_text narrow_terminal [7] 3 = [7, 32, 32, 32, 32] \<and>
   wcswidth narrow_terminal (pad_text narrow_terminal [7] 3) = - 1 \<and>
   pad_text narrow_terminal (pad_text narrow_terminal [7] 3) 3
     = [7, 32, 32, 32, 32, 32, 32, 32, 32]"
  by (simp add: pad_text_def wcswidth_def narrow_terminal_def wcwidth_ascii_def
        replicate_numeral Let_def)

section \<open>Loading, detection and timestamps\<close>

lemmas file_eval = one_folder_def path_join_def path_exists_def json_load_def
  load_messages_def message_def pinned_label_def

text \<open>
  C1 at a messages file that exists but is not valid JSON, and at a path that holds no
  file: \<open>load_messages\<close> has no handler, so the exception of \<open>json.load\<close> or \<open>open\<close> comes
  out of it, and through the loop of \<open>main\<close> that calls it for every folder.
\<close>

theorem load_messages_raises:
  "load_messages broken_archive (lit ''Groups/DM_1/messages.json'') = Inl JSONDecodeError \<and>
   load_messages broken_archive (lit ''Groups/DM_2/messages.json'') = Inl FileNotFoundError \<and>
   build_entries broken_archive (lit ''Groups'') (lit ''a@x.com'') (lit ''DM'')
     = Inl JSONDecodeError"
  by (simp add: broken_archive_def build_entries_def folder_entry_def file_eval text_eval)

text \<open>
  C3 at an archive whose only messages file is a bare list: \<open>detect_my_email\<close> calls
  \<open>data.get\<close> on the list, the \<open>AttributeError\<close> is swallowed and the folder is skipped,
  so no identity is found, although \<open>load_messages\<close> reads the same file and the same
  messages inside an object are counted.
\<close>

theorem detect_my_email_skips_bare_list:
  "detect_my_email bare_list_archive (lit ''Groups'') = JNull \<and>
   load_messages bare_list_archive (lit ''Groups/DM_1/messages.json'')
     = Inr (JList [message (lit ''Ann'') (lit ''a@x.com'') (lit ''hi'') []]) \<and>
   detect_my_email object_archive (lit ''Groups'') = JStr (lit ''a@x.com'')"
  by (simp add: bare_list_archive_def object_archive_def detect_my_email_def tally_folder_def
        file_eval text_eval)



section \<open>The name of the other participant\<close>

text \<open>
  Reading a field of a value known to be an object, the objects that are messages (an
  object whose \<open>creator\<close>, when there is one, is an object), and, in the words of the
  specification, the name the scan should find: that of the first message whose sender
  is not the viewer and whose name is present and not \<open>Unknown\<close>.
\<close>

fun is_object :: "json \<Rightarrow> bool" where
  "is_object (JDict kvs) = True"
| "is_object _ = False"

definition field :: "json \<Rightarrow> str \<Rightarrow> json \<Rightarrow> json" where
  "field obj k d = (case get obj k d of Inr v \<Rightarrow> v | Inl e \<Rightarrow> d)"

definition sender_email :: "json \<Rightarrow> json" where
  "sender_email m = field (field m (lit ''creator'') (JDict [])) (lit ''email'') JNull"

definition sender_name :: "json \<Rightarrow> json" where
  "sender_name m =
     field (field m (lit ''creator'') (JDict [])) (lit ''name'') (JStr (lit ''Unknown''))"

definition message_object :: "json \<Rightarrow> bool" where
  "message_object m \<longleftrightarrow> is_object m \<and> is_object (field m (lit ''creator'') (JDict []))"

definition named_other :: "str \<Rightarrow> json \<Rightarrow> bool" where
  "named_other my_email m \<longleftrightarrow>
     sender_email m \<noteq> JStr my_email \<and> truthy (sender_name m) \<and>
     sender_name m \<noteq> JStr (lit ''Unknown'')"

definition first_other_name :: "json list \<Rightarrow> str \<Rightarrow> json" where
  "first_other_name ms my_email =
     (case find (named_other my_email) ms of
        Some m \<Rightarrow> sender_name m
      | None \<Rightarrow> JStr (lit ''Deleted User''))"

lemma get_object: "is_object j \<Longrightarrow> get j k d = Inr (field j k d)"
  by (cases j) (simp_all add: field_def)

lemma get_field: "get j k d = Inr v \<Longrightarrow> field j k d = v"
  by (simp add: field_def)

lemma dm_scan_objects:
  "list_all message_object ms \<Longrightarrow> dm_scan ms my_email = Inr (first_other_name ms my_email)"
proof (induction ms)
  case Nil
  show ?case by (simp add: first_other_name_def)
next
  case (Cons m ms)
  then have m: "is_object m" "is_object (field m (lit ''creator'') (JDict []))"
    and ms: "dm_scan ms my_email = Inr (first_other_name ms my_email)"
    by (simp_all add: message_object_def)
  show ?case
    by (simp add: get_object [OF m(1)] get_object [OF m(2)] ms first_other_name_def
          named_other_def sender_email_def sender_name_def)
qed

lemma dm_scan_result:
  "dm_scan ms my_email = Inr r \<Longrightarrow>
     r = JStr (lit ''Deleted User'') \<or>
     (\<exists>m \<in> set ms. sender_name m = r \<and> truthy r \<and> r \<noteq> JStr (lit ''Unknown''))"
proof (induction ms)
  case Nil
  then show ?case by simp
next
  case (Cons m ms)
  show ?case
  proof (cases "get m (lit ''creator'') (JDict [])")
    case (Inl e)
    with Cons.prems show ?thesis by simp
  next
    case creator: (Inr c)
    show ?thesis
    proof (cases "get c (lit ''email'') JNull")
      case (Inl e)
      with Cons.prems creator show ?thesis by simp
    next
      case email: (Inr em)
      show ?thesis
      proof (cases "get c (lit ''name'') (JStr (lit ''Unknown''))")
        case (Inl e)
        with Cons.prems creator email show ?thesis by simp
      next
        case name: (Inr nm)
        have sn: "sender_name m = nm"
          using get_field [OF creator] get_field [OF name] by (simp add: sender_name_def)
        show ?thesis
        proof (cases "em \<noteq> JStr my_email \<and> truthy nm \<and> nm \<noteq> JStr (lit ''Unknown'')")
          case True
          with Cons.prems creator email name have "r = nm" by simp
          with True sn show ?thesis by auto
        next
          case False
          with Cons.prems creator email name have "dm_scan ms my_email = Inr r"
            by (auto split: if_splits)
          from Cons.IH [OF this] show ?thesis by auto
        qed
      qed
    qed
  qed
qed

lemma deleted_user_neq: "lit ''Deleted User'' \<noteq> [] \<and> lit ''Deleted User'' \<noteq> lit ''Unknown''"
  by (simp add: lit_def)

lemma get_dm_participant_result:
  assumes "get_dm_participant messages my_email = Inr r"
  shows "r \<noteq> JStr [] \<and> r \<noteq> JStr (lit ''Unknown'')"
proof -
  from assms obtain ms where "dm_scan ms my_email = Inr r"
    by (cases "py_iter messages") (auto simp: get_dm_participant_def)
  from dm_scan_result [OF this] show ?thesis
    using deleted_user_neq by auto
qed

text \<open>
  C6. On a list of messages \<open>get_dm_participant\<close> returns the name of the first message,
  in file order, whose sender differs from the viewer and whose name is present and not
  \<open>Unknown\<close>, and \<open>Deleted User\<close> when there is none (so also on the empty list).
\<close>

theorem get_dm_participant_first_other:
  assumes "list_all message_object ms"
  shows "get_dm_participant (JList ms) my_email = Inr (first_other_name ms my_email)"
  using dm_scan_objects [OF assms] by (simp add: get_dm_participant_def)

lemmas name_eval = message_object_def field_def first_other_name_def named_other_def
  sender_email_def sender_name_def message_def lit_def

theorem get_dm_participant_first_other_witness:
  "list_all message_object
     [message (lit ''Ann'') (lit ''a@x.com'') (lit ''hi'') [],
      message (lit ''Bob'') (lit ''b@x.com'') (lit ''yo'') []] \<and>
   get_dm_participant
     (JList [message (lit ''Ann'') (lit ''a@x.com'') (lit ''hi'') [],
             message (lit ''Bob'') (lit ''b@x.com'') (lit ''yo'') []]) (lit ''a@x.com'')
     = Inr (JStr (lit ''Bob'')) \<and>
   list_all message_object [] \<and>
   get_dm_participant (JList []) (lit ''a@x.com'') = Inr (JStr (lit ''Deleted User''))"
proof -
  have h: "list_all message_object
     [message (lit ''Ann'') (lit ''a@x.com'') (lit ''hi'') [],
      message (lit ''Bob'') (lit ''b@x.com'') (lit ''yo'') []]"
    by (simp add: name_eval)
  have e: "list_all message_object []" by simp
  show ?thesis
    using get_dm_participant_first_other [OF h, of "lit ''a@x.com''"]
      get_dm_participant_first_other [OF e, of "lit ''a@x.com''"] h
    by (simp add: name_eval)
qed

text \<open>
  C9. Whatever the messages and the viewer, \<open>get_dm_participant\<close> never returns the empty
  string nor \<open>Unknown\<close>: what it returns on a list is \<open>Deleted User\<close> or the name of one of
  the messages, and that name is non-empty and not \<open>Unknown\<close>. On a list of messages it
  does return.
\<close>

theorem get_dm_participant_never_unknown:
  "get_dm_participant messages my_email \<noteq> Inr (JStr []) \<and>
   get_dm_participant messages my_email \<noteq> Inr (JStr (lit ''Unknown'')) \<and>
   (\<forall>r. get_dm_participant (JList ms) my_email = Inr r \<longrightarrow>
      r = JStr (lit ''Deleted User'') \<or>
      (\<exists>m \<in> set ms. sender_name m = r \<and> truthy r \<and> r \<noteq> JStr (lit ''Unknown''))) \<and>
   (list_all message_object ms \<longrightarrow> (\<exists>r. get_dm_participant (JList ms) my_email = Inr r))"
proof -
  have a: "get_dm_participant messages my_email \<noteq> Inr (JStr [])"
    using get_dm_participant_result [of messages my_email "JStr []"] by auto
  have b: "get_dm_participant messages my_email \<noteq> Inr (JStr (lit ''Unknown''))"
    using get_dm_participant_result [of messages my_email "JStr (lit ''Unknown'')"] by auto
  have c: "r = JStr (lit ''Deleted User'') \<or>
      (\<exists>m \<in> set ms. sender_name m = r \<and> truthy r \<and> r \<noteq> JStr (lit ''Unknown''))"
    if "get_dm_participant (JList ms) my_email = Inr r" for r
    using that dm_scan_result [of ms my_email r] by (simp add: get_dm_participant_def)
  have d: "\<exists>r. get_dm_participant (JList ms) my_email = Inr r" if "list_all message_object ms"
    using dm_scan_objects [OF that] by (simp add: get_dm_participant_def)
  show ?thesis using a b c d by blast
qed

theorem get_dm_participant_never_unknown_witness:
  "list_all message_object
     [message (lit ''Unknown'') (lit ''c@x.com'') (lit ''hi'') [],
      message (lit ''Bob'') (lit ''b@x.com'') (lit ''yo'') []] \<and>
   get_dm_participant
     (JList [message (lit ''Unknown'') (lit ''c@x.com'') (lit ''hi'') [],
             message (lit ''Bob'') (lit ''b@x.com'') (lit ''yo'') []]) (lit ''a@x.com'')
     = Inr (JStr (lit ''Bob'')) \<and>
   sender_name (message (lit ''Bob'') (lit ''b@x.com'') (lit ''yo'') []) = JStr (lit ''Bob'') \<and>
   truthy (JStr (lit ''Bob''))"
proof -
  let ?ms = "[message (lit ''Unknown'') (lit ''c@x.com'') (lit ''hi'') [],
              message (lit ''Bob'') (lit ''b@x.com'') (lit ''yo'') []]"
  have h: "list_all message_object ?ms" by (simp add: name_eval)
  have g: "get_dm_participant (JList ?ms) (lit ''a@x.com'') = Inr (JStr (lit ''Bob''))"
    by (simp add: get_dm_participant_def name_eval)
  from get_dm_participant_never_unknown [of "JList ?ms" "lit ''a@x.com''" ?ms] g
  have "JStr (lit ''Bob'') = JStr (lit ''Deleted User'') \<or>
      (\<exists>m \<in> set ?ms. sender_name m = JStr (lit ''Bob'') \<and> truthy (JStr (lit ''Bob'')) \<and>
         JStr (lit ''Bob'') \<noteq> JStr (lit ''Unknown''))"
    by blast
  then have "sender_name (message (lit ''Bob'') (lit ''b@x.com'') (lit ''yo'') []) = JStr (lit ''Bob'') \<and>
     truthy (JStr (lit ''Bob''))"
    by (simp add: name_eval)
  with h g show ?thesis by blast
qed

section \<open>Messages without text\<close>









section \<open>From the selected entry back to the folder\<close>

lemma split_on_not_Nil: "split_on sep x \<noteq> []"
  by (induction x) (auto split: list.splits)

lemma split_on_free: "sep \<notin> set x \<Longrightarrow> split_on sep x = [x]"
  by (induction x) auto

lemma split_on_pieces: "sep \<in> set x \<Longrightarrow> 2 \<le> length (split_on sep x)"
proof (induction x)
  case Nil
  then show ?case by simp
next
  case (Cons c x)
  show ?case
  proof (cases "c = sep")
    case True
    then show ?thesis using split_on_not_Nil [of sep x] by (cases "split_on sep x") auto
  next
    case False
    with Cons show ?thesis by (auto split: list.splits)
  qed
qed

lemma last_split_on:
  "sep \<notin> set y \<Longrightarrow> last (split_on sep (x @ sep # y)) = y"
proof (induction x)
  case Nil
  then show ?case by (simp add: split_on_free)
next
  case (Cons c x)
  have n: "split_on sep (x @ sep # y) \<noteq> []" by (rule split_on_not_Nil)
  show ?case
  proof (cases "c = sep")
    case True
    with Cons n show ?thesis by simp
  next
    case False
    have "2 \<le> length (split_on sep (x @ sep # y))" by (rule split_on_pieces) simp
    then obtain p q qs where "split_on sep (x @ sep # y) = p # q # qs"
      by (cases "split_on sep (x @ sep # y)"; cases "tl (split_on sep (x @ sep # y))") auto
    with Cons False show ?thesis by simp
  qed
qed

lemma strip_after_space: "strip x = x \<Longrightarrow> strip (32 # x) = x"
  by (simp add: strip_def lstrip_def isspace_def)

text \<open>
  C10 (as amended). For an entry \<open>DM  {label:<45} | {folder}\<close> or
  \<open>SP  {label:<45} | {folder}\<close>, whatever the label, the text after the last \<open>|\<close>,
  stripped, is the folder name, provided the folder name contains no \<open>|\<close> and has no
  leading or trailing whitespace.
\<close>

theorem selected_folder_of_entry:
  assumes "124 \<notin> set folder" and "strip folder = folder"
  shows "selected_folder (entry_line (lit ''DM'') (ljust45 label) folder) = folder \<and>
         selected_folder (entry_line (lit ''SP'') (ljust45 label) folder) = folder"
proof -
  have "selected_folder (entry_line tag fld folder) = folder" for tag fld
  proof -
    have "entry_line tag fld folder = (tag @ [32, 32] @ fld @ [32]) @ 124 # (32 # folder)"
      by (simp add: entry_line_def)
    moreover have "124 \<notin> set (32 # folder)" using assms(1) by simp
    ultimately have "last (split_on 124 (entry_line tag fld folder)) = 32 # folder"
      using last_split_on by metis
    then show ?thesis by (simp add: selected_folder_def strip_after_space [OF assms(2)])
  qed
  then show ?thesis by blast
qed

theorem selected_folder_of_entry_witness:
  "124 \<notin> set (lit ''DM_1'') \<and> strip (lit ''DM_1'') = lit ''DM_1'' \<and>
   selected_folder (entry_line (lit ''DM'') (ljust45 (lit ''a|b'' @ pin_suffix 2)) (lit ''DM_1''))
     = lit ''DM_1''"
proof -
  have a: "124 \<notin> set (lit ''DM_1'')" by (simp add: lit_def)
  have b: "strip (lit ''DM_1'') = lit ''DM_1''" by (simp add: text_eval)
  from selected_folder_of_entry [OF a b, of "lit ''a|b'' @ pin_suffix 2"] a b
  show ?thesis by blast
qed

text \<open>
  C10 as stated fails: the label \<open>Bob\<close> has no \<open>|\<close> and the folder name \<open>DM|1\<close> has no
  whitespace at either end, yet the entry leads back to \<open>1\<close>.
\<close>

theorem selected_folder_bar_in_folder:
  "124 \<notin> set (lit ''Bob'') \<and> strip (lit ''DM|1'') = lit ''DM|1'' \<and>
   selected_folder (entry_line (lit ''DM'') (ljust45 (lit ''Bob'')) (lit ''DM|1'')) = lit ''1''"
  by (simp add: selected_folder_def entry_line_def ljust45_def text_eval)

section \<open>The chat list under the pinned-only category\<close>


























end
